theory Spec2Isabelle
  imports Complex_Main "HOL-Library.AList"
begin

section \<open>React interview questions: the snippets as functions on explicit state\<close>

text \<open>
  The repository is a collection of React snippets. Each snippet that a property below is about is
  embedded below as a function on an explicit record of the state it touches: a
  \<^verbatim>\<open>useState\<close> cell is a record field, a setter call is a record update, a
  thrown exception is the \<open>Inl\<close> of a sum, a settled promise is a value of type
  \<open>promise\<close>, and a browser facility (local storage, timers, the clock) is a field or an
  argument. Strings are \<open>string\<close>; a JavaScript string is falsy exactly when it is empty.
\<close>

subsection \<open>JavaScript numbers and strict equality\<close>

text \<open>
  A \<^verbatim>\<open>number\<close> is a double: a finite value, one of the two infinities, or NaN. The
  finite values are modelled by the reals they denote (so \<open>+0\<close> and \<open>-0\<close> are one
  value, as they are for \<^verbatim>\<open>===\<close>); no arithmetic is done on this type here, only
  comparison and storage. \<^verbatim>\<open>a === b\<close> on numbers is equality, except that NaN is not
  equal to anything, itself included.
\<close>

datatype js_number = NaN | Infinity | NegInfinity | Num real

definition strict_eq :: "js_number \<Rightarrow> js_number \<Rightarrow> bool" where
  "strict_eq a b = (a \<noteq> NaN \<and> a = b)"

subsection \<open>Settled promises and \<^verbatim>\<open>fetch\<close> responses\<close>

text \<open>
  An awaited promise either throws the rejection (here: the message of the error it was
  rejected with) or yields its value. A \<^verbatim>\<open>fetch\<close> response has the flag
  \<^verbatim>\<open>ok\<close> and the promise \<^verbatim>\<open>json()\<close> returns.
\<close>

datatype 'a promise = Rejected string | Resolved 'a

record 'a fetch_response =
  ok :: bool
  json :: "'a promise"

subsection \<open>Question 1: \<^verbatim>\<open>UserList\<close>, the question and the proposed solution\<close>

text \<open>
  What \<^verbatim>\<open>axios.get\<close> resolves to. An Axios response has the fields
  \<^verbatim>\<open>data\<close>, \<^verbatim>\<open>status\<close>, \<^verbatim>\<open>statusText\<close>, \<^verbatim>\<open>headers\<close>,
  \<^verbatim>\<open>config\<close> and \<^verbatim>\<open>request\<close>; the snippets read \<^verbatim>\<open>data\<close> and, in the
  solution, \<^verbatim>\<open>ok\<close>. With its default settings \<^verbatim>\<open>axios.get\<close> rejects for a
  status outside 2xx, so such a response arrives as a rejection.
\<close>

record 'd axios_response =
  data :: 'd
  status :: int

text \<open>
  Reading a property an object does not have gives \<^verbatim>\<open>undefined\<close>, here \<open>None\<close>, and
  \<^verbatim>\<open>undefined\<close> is falsy.
\<close>

definition response_ok :: "'d axios_response \<Rightarrow> bool option" where
  "response_ok response = None"

definition truthy :: "bool option \<Rightarrow> bool" where
  "truthy b = (b = Some True)"

text \<open>The component's state: \<^verbatim>\<open>error\<close> is a string or \<^verbatim>\<open>null\<close>.\<close>

record 'u UserListState =
  users :: "'u list"
  loading :: bool
  error :: "string option"

definition initialState :: "'u UserListState" where
  "initialState = \<lparr>users = [], loading = True, error = None\<rparr>"

text \<open>\<^verbatim>\<open>question.tsx\<close>: \<^verbatim>\<open>fetchUsers\<close> after \<^verbatim>\<open>axios.get\<close> has settled.\<close>

definition fetchUsers :: "'u list axios_response promise \<Rightarrow> 'u UserListState \<Rightarrow> 'u UserListState" where
  "fetchUsers settled st =
     (case settled of
        Resolved response \<Rightarrow> st\<lparr>users := data response, loading := False\<rparr>
      | Rejected message \<Rightarrow> st\<lparr>error := Some message, loading := False\<rparr>)"

text \<open>
  \<^verbatim>\<open>solution.tsx\<close>: the \<^verbatim>\<open>try\<close> block of \<^verbatim>\<open>fetchUsers\<close>, with a thrown
  error as \<open>Inl\<close> of its message, then the whole function with its \<^verbatim>\<open>catch\<close>.
  \<open>users_of\<close> is the destructuring \<^verbatim>\<open>const { users } = response.data\<close>. The effect
  calls \<^verbatim>\<open>fetchUsers\<close> when \<^verbatim>\<open>loading\<close> is set.
\<close>

definition fetchUsers_try :: "('d \<Rightarrow> 'u list) \<Rightarrow> 'd axios_response promise \<Rightarrow> string + 'u list" where
  "fetchUsers_try users_of settled =
     (case settled of
        Rejected message \<Rightarrow> Inl message
      | Resolved response \<Rightarrow>
          if \<not> truthy (response_ok response) then Inl ''Fetching data about users failed''
          else Inr (users_of (data response)))"

definition fetchUsers_solution ::
  "('d \<Rightarrow> 'u list) \<Rightarrow> 'd axios_response promise \<Rightarrow> 'u UserListState \<Rightarrow> 'u UserListState" where
  "fetchUsers_solution users_of settled st =
     (case fetchUsers_try users_of settled of
        Inr fetched \<Rightarrow> st\<lparr>users := fetched, loading := False\<rparr>
      | Inl message \<Rightarrow> st\<lparr>error := Some message, loading := False\<rparr>)"

definition useEffect_solution ::
  "('d \<Rightarrow> 'u list) \<Rightarrow> 'd axios_response promise \<Rightarrow> 'u UserListState \<Rightarrow> 'u UserListState" where
  "useEffect_solution users_of settled st =
     (if loading st then fetchUsers_solution users_of settled st else st)"

text \<open>
  What both components render: the loading text, the error text when \<^verbatim>\<open>error\<close> is
  truthy (neither \<^verbatim>\<open>null\<close> nor empty), and the list of users otherwise.
\<close>

datatype 'u view = Loading | ErrorText string | UserItems "'u list"

definition render :: "'u UserListState \<Rightarrow> 'u view" where
  "render st =
     (if loading st then Loading
      else (case error st of
              None \<Rightarrow> UserItems (users st)
            | Some message \<Rightarrow> if message = [] then UserItems (users st) else ErrorText message))"

subsection \<open>Question 16: \<^verbatim>\<open>useFetch\<close>\<close>

record 'a FetchState =
  data :: "'a option"
  loading :: bool
  error :: "string option"

text \<open>
  The \<^verbatim>\<open>try\<close> block of the effect's \<^verbatim>\<open>fetchData\<close> once \<^verbatim>\<open>fetch(url)\<close> has
  settled, then the whole function. Each \<^verbatim>\<open>setState\<close> call passes a complete
  state object.
\<close>

definition fetchData_try :: "'a fetch_response promise \<Rightarrow> string + 'a" where
  "fetchData_try settled =
     (case settled of
        Rejected message \<Rightarrow> Inl message
      | Resolved response \<Rightarrow>
          if \<not> ok response then Inl ''Network response was not ok''
          else (case json response of Rejected message \<Rightarrow> Inl message | Resolved d \<Rightarrow> Inr d))"

definition useFetch :: "'a fetch_response promise \<Rightarrow> 'a FetchState \<Rightarrow> 'a FetchState" where
  "useFetch settled st =
     (case fetchData_try settled of
        Inr d \<Rightarrow> \<lparr>data = Some d, loading = False, error = None\<rparr>
      | Inl message \<Rightarrow> \<lparr>data = None, loading = False, error = Some message\<rparr>)"

subsection \<open>Question 4: \<^verbatim>\<open>UserProfile\<close>\<close>

record User =
  name :: string
  age :: js_number

text \<open>
  \<open>Number\<close> is JavaScript's conversion of a string to a number, taken as it is:
  it gives NaN for text that is not a numeric literal.
\<close>

definition handleNameChange :: "string \<Rightarrow> User \<Rightarrow> User" where
  "handleNameChange v user = user\<lparr>name := v\<rparr>"

definition handleAgeChange :: "(string \<Rightarrow> js_number) \<Rightarrow> string \<Rightarrow> User \<Rightarrow> User" where
  "handleAgeChange Number v user = user\<lparr>age := Number v\<rparr>"

subsection \<open>Question 25: \<^verbatim>\<open>useFormValidation\<close>\<close>

record FormState =
  name :: string
  email :: string
  password :: string

text \<open>
  \<^verbatim>\<open>Errors\<close> is an object with optional keys: its own properties in insertion
  order. \<^verbatim>\<open>newErrors.k = v\<close> is \<open>AList.update k v\<close>, which overwrites an
  existing key in place and appends a new one; \<^verbatim>\<open>Object.keys(o)\<close> is \<open>map fst o\<close>.
\<close>

type_synonym Errors = "(string \<times> string) list"

definition Object_keys :: "Errors \<Rightarrow> string list" where
  "Object_keys obj = map fst obj"

text \<open>
  The hook's two state cells, and what \<^verbatim>\<open>handleSubmit\<close> does to its arguments:
  whether \<^verbatim>\<open>e.preventDefault()\<close> ran and how many times \<^verbatim>\<open>callback()\<close> was invoked.
\<close>

record validation =
  form :: FormState
  errors :: Errors
  defaultPrevented :: bool
  callbackCalls :: nat

definition validate :: "validation \<Rightarrow> validation \<times> bool" where
  "validate st =
     (let newErrors0 = [] :: Errors;
          newErrors1 = (if name (form st) = []
                        then AList.update ''name'' ''Name is required'' newErrors0
                        else newErrors0);
          newErrors2 = (if email (form st) = []
                        then AList.update ''email'' ''Email is required'' newErrors1
                        else newErrors1);
          newErrors3 = (if password (form st) = []
                        then AList.update ''password'' ''Password is required'' newErrors2
                        else newErrors2)
      in (st\<lparr>errors := newErrors3\<rparr>, length (Object_keys newErrors3) = 0))"

definition handleSubmit :: "validation \<Rightarrow> validation" where
  "handleSubmit st =
     (let st1 = st\<lparr>defaultPrevented := True\<rparr>;
          (st2, valid) = validate st1
      in if valid then st2\<lparr>callbackCalls := Suc (callbackCalls st2)\<rparr> else st2)"

subsection \<open>Question 21: the Immer \<^verbatim>\<open>reducer\<close> over a list of users\<close>

record user =
  user_id :: js_number
  user_name :: string

record users_state =
  users :: "user list"

text \<open>
  An action is an object with a \<^verbatim>\<open>type\<close> string and a \<^verbatim>\<open>payload\<close>. The
  TypeScript type allows two \<^verbatim>\<open>type\<close> values; the \<^verbatim>\<open>switch\<close> has a
  \<^verbatim>\<open>default\<close> for anything else, which the model keeps.
\<close>

record action =
  action_type :: string
  payload :: user

text \<open>
  \<^verbatim>\<open>draft.users.find(p)\<close> returns a reference to the first element that satisfies
  \<^verbatim>\<open>p\<close>, and the assignment to \<^verbatim>\<open>user.name\<close> writes through that reference.
  On values, that is the index of the first match and a list update at that index.
\<close>

fun findIndex :: "('a \<Rightarrow> bool) \<Rightarrow> 'a list \<Rightarrow> nat option" where
  "findIndex p [] = None"
| "findIndex p (x # xs) = (if p x then Some 0 else map_option Suc (findIndex p xs))"

text \<open>
  \<^verbatim>\<open>produce(state, recipe)\<close> returns the state that results from running the recipe
  on a draft of \<^verbatim>\<open>state\<close>, and \<^verbatim>\<open>state\<close> itself when the recipe changed nothing.
\<close>

definition reducer_users :: "users_state \<Rightarrow> action \<Rightarrow> users_state" where
  "reducer_users state a =
     (if action_type a = ''add_user'' then state\<lparr>users := users state @ [payload a]\<rparr>
      else if action_type a = ''update_user'' then
        (case findIndex (\<lambda>u. strict_eq (user_id u) (user_id (payload a))) (users state) of
           None \<Rightarrow> state
         | Some i \<Rightarrow>
             state\<lparr>users := (users state)[i := (users state ! i)\<lparr>user_name := user_name (payload a)\<rparr>]\<rparr>)
      else state)"

subsection \<open>Question 13: the counter \<^verbatim>\<open>reducer\<close>\<close>

text \<open>
  \<^verbatim>\<open>count\<close> is a number that starts at \<open>0\<close> and only ever has \<open>1\<close> added or
  subtracted, so it is an integer. Double arithmetic on integers is exact as long as the
  operands and the result lie between \<open>-2^53\<close> and \<open>2^53\<close>; the model computes on
  \<open>int\<close>, and \<open>isSafeInteger\<close> (JavaScript's \<^verbatim>\<open>Number.isSafeInteger\<close>) marks the range on
  which it agrees with the doubles. The action is its \<^verbatim>\<open>type\<close> string \<open>ty\<close>; the
  \<^verbatim>\<open>default\<close> branch returns the state.
\<close>

record counter_state =
  count :: int

definition isSafeInteger :: "int \<Rightarrow> bool" where
  "isSafeInteger n = (- (2 ^ 53) < n \<and> n < 2 ^ 53)"

definition reducer_counter :: "counter_state \<Rightarrow> string \<Rightarrow> counter_state" where
  "reducer_counter state ty =
     (if ty = ''increment'' then \<lparr>count = count state + 1\<rparr>
      else if ty = ''decrement'' then \<lparr>count = count state - 1\<rparr>
      else state)"

subsection \<open>Patterns document, section 10: the XState \<^verbatim>\<open>toggleMachine\<close>\<close>

text \<open>
  The argument of \<^verbatim>\<open>createMachine\<close> is data: an id, the name of the initial state, and
  for each state name the events it handles with their target states.
\<close>

record state_node =
  on :: "(string \<times> string) list"

record machine =
  machine_id :: string
  initial :: string
  states :: "(string \<times> state_node) list"

definition toggleMachine :: machine where
  "toggleMachine =
     \<lparr>machine_id = ''toggle'',
      initial = ''inactive'',
      states = [(''inactive'', \<lparr>on = [(''TOGGLE'', ''active'')]\<rparr>),
                (''active'', \<lparr>on = [(''TOGGLE'', ''inactive'')]\<rparr>)]\<rparr>"

text \<open>
  What the library does with such a machine: \<^verbatim>\<open>send(event)\<close> moves to the target the
  current state's \<^verbatim>\<open>on\<close> gives for the event and stays where it is when the state
  does not handle the event. \<^verbatim>\<open>useMachine\<close> starts in the initial state.
\<close>

definition transition :: "machine \<Rightarrow> string \<Rightarrow> string \<Rightarrow> string" where
  "transition m s e =
     (case map_of (states m) s of
        None \<Rightarrow> s
      | Some node \<Rightarrow> (case map_of (on node) e of None \<Rightarrow> s | Some target \<Rightarrow> target))"

definition send_all :: "machine \<Rightarrow> string list \<Rightarrow> string" where
  "send_all m events = foldl (transition m) (initial m) events"

definition state_names :: "machine \<Rightarrow> string list" where
  "state_names m = map fst (states m)"

text \<open>
  A finite state machine in the sense of the specification: a fixed, duplicate-free list
  of named states, an initial state among them, and labelled transitions whose targets are
  states of the machine.
\<close>

definition is_state_machine :: "machine \<Rightarrow> bool" where
  "is_state_machine m =
     (states m \<noteq> [] \<and> distinct (state_names m) \<and> List.member (state_names m) (initial m)
      \<and> list_all (\<lambda>node. list_all (\<lambda>tr. List.member (state_names m) (snd tr)) (on (snd node)))
           (states m))"

subsection \<open>Question 15: \<^verbatim>\<open>useThrottle\<close> and \<^verbatim>\<open>useDebounce\<close>\<close>

text \<open>
  \<^verbatim>\<open>useThrottle\<close> keeps the time of the last call that went through in a ref,
  initially \<open>0\<close>. The function it returns reads the clock (\<^verbatim>\<open>Date.now()\<close>,
  integer milliseconds), and runs \<^verbatim>\<open>callback\<close> only when at least \<^verbatim>\<open>delay\<close>
  milliseconds have passed. The callback is any function on the state it acts on.
\<close>

record 'w throttle =
  lastCall :: int
  world :: 'w

definition useThrottle :: "('w \<Rightarrow> 'w) \<Rightarrow> int \<Rightarrow> int \<Rightarrow> 'w throttle \<Rightarrow> 'w throttle" where
  "useThrottle callback delay now t =
     (if now - lastCall t \<ge> delay then t\<lparr>world := callback (world t), lastCall := now\<rparr> else t)"

text \<open>
  \<^verbatim>\<open>useDebounce\<close>: one state cell and one effect with dependencies
  \<^verbatim>\<open>[value, delay]\<close>. The browser's timers are a list of pending callbacks, each with
  its handle, the time it is due and the value its callback will pass to
  \<^verbatim>\<open>setDebouncedValue\<close>. The browser converts the delay given to
  \<^verbatim>\<open>setTimeout\<close> to a signed 32-bit integer, wrapping modulo \<open>2^32\<close>, and treats a
  negative result as \<open>0\<close>: \<open>timer_delay\<close> is the number of milliseconds the timer
  really waits.
\<close>

definition ToInt32 :: "int \<Rightarrow> int" where
  "ToInt32 n = (n + 2 ^ 31) mod 2 ^ 32 - 2 ^ 31"

definition timer_delay :: "int \<Rightarrow> int" where
  "timer_delay delay = max 0 (ToInt32 delay)"

record 'a debounce =
  debouncedValue :: 'a
  timers :: "(nat \<times> int \<times> 'a) list"
  nextHandle :: nat
  handler :: "nat option"
  deps :: "('a \<times> int) option"

definition setTimeout :: "'a \<Rightarrow> int \<Rightarrow> int \<Rightarrow> 'a debounce \<Rightarrow> nat \<times> 'a debounce" where
  "setTimeout v delay now st =
     (nextHandle st,
      st\<lparr>timers := timers st @ [(nextHandle st, now + timer_delay delay, v)],
         nextHandle := Suc (nextHandle st)\<rparr>)"

definition clearTimeout :: "nat \<Rightarrow> 'a debounce \<Rightarrow> 'a debounce" where
  "clearTimeout h st = st\<lparr>timers := filter (\<lambda>t. fst t \<noteq> h) (timers st)\<rparr>"

text \<open>The effect body, and the cleanup function it returns (which holds \<^verbatim>\<open>handler\<close>).\<close>

definition effect :: "'a \<Rightarrow> int \<Rightarrow> int \<Rightarrow> 'a debounce \<Rightarrow> 'a debounce" where
  "effect v delay now st =
     (let (h, st') = setTimeout v delay now st in st'\<lparr>handler := Some h\<rparr>)"

definition cleanup :: "'a debounce \<Rightarrow> 'a debounce" where
  "cleanup st =
     (case handler st of None \<Rightarrow> st | Some h \<Rightarrow> (clearTimeout h st)\<lparr>handler := None\<rparr>)"

text \<open>
  Mounting runs the effect. A later render with \<^verbatim>\<open>value\<close> and \<^verbatim>\<open>delay\<close> runs the
  previous cleanup and then the effect when a dependency changed, and nothing otherwise.
  \<open>tick now\<close> is the browser running, at time \<open>now\<close>, every callback that is due
  by then; a callback never runs before it is due, and it may run late.
\<close>

definition mount :: "'a \<Rightarrow> int \<Rightarrow> int \<Rightarrow> 'a debounce" where
  "mount v delay now =
     (effect v delay now
        \<lparr>debouncedValue = v, timers = [], nextHandle = 0, handler = None, deps = None\<rparr>)
       \<lparr>deps := Some (v, delay)\<rparr>"

definition useDebounce :: "'a \<Rightarrow> int \<Rightarrow> int \<Rightarrow> 'a debounce \<Rightarrow> 'a debounce" where
  "useDebounce v delay now st =
     (if deps st = Some (v, delay) then st
      else (effect v delay now (cleanup st))\<lparr>deps := Some (v, delay)\<rparr>)"

definition tick :: "int \<Rightarrow> 'a debounce \<Rightarrow> 'a debounce" where
  "tick now st =
     (fold (\<lambda>t s. s\<lparr>debouncedValue := snd (snd t)\<rparr>)
        (filter (\<lambda>t. fst (snd t) \<le> now) (timers st)) st)
       \<lparr>timers := filter (\<lambda>t. \<not> fst (snd t) \<le> now) (timers st)\<rparr>"


subsection \<open>Question 14: \<^verbatim>\<open>DataFetchingComponent\<close> with the \<^verbatim>\<open>isMounted\<close> flag\<close>

definition fetchData :: "'a fetch_response promise \<Rightarrow> 'a promise" where
  "fetchData fetched =
     (case fetched of Rejected message \<Rightarrow> Rejected message | Resolved response \<Rightarrow> json response)"

record DataFetching =
  data :: "string list"
  loading :: bool
  isMounted :: bool

text \<open>
  \<^verbatim>\<open>loadData\<close> after \<^verbatim>\<open>fetchData()\<close> has settled. Its \<^verbatim>\<open>catch\<close> block is
  empty. The effect's cleanup clears the flag.
\<close>

definition loadData :: "string list promise \<Rightarrow> DataFetching \<Rightarrow> DataFetching" where
  "loadData settled st =
     (case settled of
        Resolved result \<Rightarrow> if isMounted st then st\<lparr>data := result, loading := False\<rparr> else st
      | Rejected message \<Rightarrow> st)"

definition unmount :: "DataFetching \<Rightarrow> DataFetching" where
  "unmount st = st\<lparr>isMounted := False\<rparr>"

subsection \<open>Patterns document, section 58: \<^verbatim>\<open>useLocalStorage\<close>\<close>

text \<open>
  \<^verbatim>\<open>window.localStorage\<close> maps keys to strings and outlives the page. Reading the
  property \<^verbatim>\<open>window.localStorage\<close> throws when the browser denies access, and
  \<^verbatim>\<open>setItem\<close> throws when the new entry does not fit the quota.
\<close>

datatype js_error = SecurityError | QuotaExceededError | SyntaxError | TypeError

record Storage =
  items :: "string \<rightharpoonup> string"
  denied :: bool

text \<open>
  What the snippet takes from the platform: \<^verbatim>\<open>JSON.stringify\<close> (the string that
  reaches \<^verbatim>\<open>setItem\<close>, or the exception thrown for a value that cannot be
  serialised), \<^verbatim>\<open>JSON.parse\<close> (the value, or the exception thrown for malformed
  text), the browser's quota policy \<open>fits\<close>, and \<open>as_function\<close>, which tells whether a
  value of type \<^verbatim>\<open>any\<close> is a function and, if so, which one.
\<close>

record 'v platform =
  JSON_stringify :: "'v \<Rightarrow> js_error + string"
  JSON_parse :: "string \<Rightarrow> js_error + 'v"
  fits :: "(string \<rightharpoonup> string) \<Rightarrow> string \<Rightarrow> string \<Rightarrow> bool"
  as_function :: "'v \<Rightarrow> ('v \<Rightarrow> 'v) option"

definition getItem :: "Storage \<Rightarrow> string \<Rightarrow> js_error + string option" where
  "getItem st key = (if denied st then Inl SecurityError else Inr (items st key))"

definition setItem :: "'v platform \<Rightarrow> Storage \<Rightarrow> string \<Rightarrow> string \<Rightarrow> js_error + Storage" where
  "setItem p st key v =
     (if denied st then Inl SecurityError
      else if \<not> fits p (items st) key v then Inl QuotaExceededError
      else Inr (st\<lparr>items := (items st)(key \<mapsto> v)\<rparr>))"

text \<open>
  The page: the hook's state cell, the storage, and what was passed to
  \<^verbatim>\<open>console.error\<close>.
\<close>

record 'v page =
  storedValue :: 'v
  localStorage :: Storage
  console :: "js_error list"

text \<open>
  The initialiser passed to \<^verbatim>\<open>useState\<close>: \<^verbatim>\<open>item ? JSON.parse(item) : initialValue\<close>
  inside a \<^verbatim>\<open>try\<close> whose \<^verbatim>\<open>catch\<close> returns \<^verbatim>\<open>initialValue\<close>. A missing key
  gives \<^verbatim>\<open>null\<close>, and both \<^verbatim>\<open>null\<close> and the empty string are falsy.
\<close>

definition initialStoredValue :: "'v platform \<Rightarrow> Storage \<Rightarrow> string \<Rightarrow> 'v \<Rightarrow> 'v" where
  "initialStoredValue p st key initialValue =
     (case getItem st key of
        Inl e \<Rightarrow> initialValue
      | Inr item \<Rightarrow>
          (case item of
             None \<Rightarrow> initialValue
           | Some text \<Rightarrow>
               if text = [] then initialValue
               else (case JSON_parse p text of Inl e \<Rightarrow> initialValue | Inr v \<Rightarrow> v)))"

definition useLocalStorage :: "'v platform \<Rightarrow> string \<Rightarrow> 'v \<Rightarrow> Storage \<Rightarrow> 'v page" where
  "useLocalStorage p key initialValue st =
     \<lparr>storedValue = initialStoredValue p st key initialValue, localStorage = st, console = []\<rparr>"

text \<open>
  The state setter React returns: given a function it stores the function's result on the
  previous state, and given anything else it stores the value.
\<close>

definition setStoredValue :: "'v platform \<Rightarrow> 'v \<Rightarrow> 'v page \<Rightarrow> 'v page" where
  "setStoredValue p v w =
     w\<lparr>storedValue := (case as_function p v of
                          None \<Rightarrow> v
                        | Some updater \<Rightarrow> updater (storedValue w))\<rparr>"

text \<open>
  \<^verbatim>\<open>setValue\<close>: the state cell is set first. In
  \<^verbatim>\<open>window.localStorage.setItem(key, JSON.stringify(value))\<close> the property
  \<^verbatim>\<open>window.localStorage\<close> is read before the argument is evaluated, so denied access
  throws before \<^verbatim>\<open>JSON.stringify\<close> is called; then \<^verbatim>\<open>JSON.stringify\<close> may
  throw, then \<^verbatim>\<open>setItem\<close>. Whatever is thrown is caught and logged.
\<close>

definition setValue :: "'v platform \<Rightarrow> string \<Rightarrow> 'v \<Rightarrow> 'v page \<Rightarrow> 'v page" where
  "setValue p key v w =
     (let w1 = setStoredValue p v w in
      if denied (localStorage w1) then w1\<lparr>console := console w1 @ [SecurityError]\<rparr>
      else
        (case JSON_stringify p v of
           Inl e \<Rightarrow> w1\<lparr>console := console w1 @ [e]\<rparr>
         | Inr text \<Rightarrow>
             (case setItem p (localStorage w1) key text of
                Inl e \<Rightarrow> w1\<lparr>console := console w1 @ [e]\<rparr>
              | Inr st \<Rightarrow> w1\<lparr>localStorage := st\<rparr>)))"

text \<open>
  A page refresh discards the component's state and mounts the hook again on the storage
  as it was left.
\<close>

definition refresh :: "'v platform \<Rightarrow> string \<Rightarrow> 'v \<Rightarrow> 'v page \<Rightarrow> 'v page" where
  "refresh p key initialValue w = useLocalStorage p key initialValue (localStorage w)"


section \<open>Properties\<close>

text \<open>
  C9. \<^verbatim>\<open>validate\<close> returns true exactly when the three fields \<^verbatim>\<open>name\<close>,
  \<^verbatim>\<open>email\<close> and \<^verbatim>\<open>password\<close> of the form are all non-empty; the errors state it
  leaves has a message under exactly the keys of the empty fields (and the form is not
  touched); and \<^verbatim>\<open>handleSubmit\<close> invokes its callback once when every field is
  non-empty and not at all otherwise.
\<close>

theorem validate_true_iff_all_fields_nonempty:
  "snd (validate st) = (name (form st) \<noteq> [] \<and> email (form st) \<noteq> [] \<and> password (form st) \<noteq> [])
   \<and> map_of (errors (fst (validate st))) ''name''
       = (if name (form st) = [] then Some ''Name is required'' else None)
   \<and> map_of (errors (fst (validate st))) ''email''
       = (if email (form st) = [] then Some ''Email is required'' else None)
   \<and> map_of (errors (fst (validate st))) ''password''
       = (if password (form st) = [] then Some ''Password is required'' else None)
   \<and> set (Object_keys (errors (fst (validate st)))) \<subseteq> {''name'', ''email'', ''password''}
   \<and> form (fst (validate st)) = form st
   \<and> callbackCalls (handleSubmit st)
       = (if name (form st) \<noteq> [] \<and> email (form st) \<noteq> [] \<and> password (form st) \<noteq> []
          then Suc (callbackCalls st) else callbackCalls st)"
  by (simp add: validate_def handleSubmit_def Object_keys_def Let_def)

subsection \<open>The users reducer\<close>

lemma findIndex_None: "findIndex p xs = None \<longleftrightarrow> (\<forall>x \<in> set xs. \<not> p x)"
  by (induction xs) auto

lemma findIndex_Some:
  "findIndex p xs = Some i \<Longrightarrow> i < length xs \<and> p (xs ! i) \<and> (\<forall>j < i. \<not> p (xs ! j))"
proof (induction xs arbitrary: i)
  case Nil
  then show ?case by simp
next
  case (Cons x xs)
  show ?case
  proof (cases "p x")
    case True
    with Cons.prems show ?thesis by simp
  next
    case False
    with Cons.prems obtain k where k: "findIndex p xs = Some k" "i = Suc k"
      by auto
    from Cons.IH [OF k(1)] False k(2) show ?thesis
      by (auto simp: nth_Cons split: nat.splits)
  qed
qed

text \<open>
  C8. The users reducer is total and changes only what the action names. For
  \<^verbatim>\<open>update_user\<close>: when no user's id is \<^verbatim>\<open>===\<close> the payload's id the state is
  returned unchanged; when some user matches, there is a first matching position, the
  result is the list with that one user's name replaced by the payload's name, so the
  length, every id and every other user are unchanged. For \<^verbatim>\<open>add_user\<close> the result
  is the old list followed by the payload. Any other action type returns the state.
\<close>

theorem reducer_users_frame:
  "(action_type a = ''update_user''
      \<and> (\<forall>u \<in> set (users s). \<not> strict_eq (user_id u) (user_id (payload a)))
      \<longrightarrow> reducer_users s a = s)
   \<and> (action_type a = ''update_user''
      \<and> (\<exists>u \<in> set (users s). strict_eq (user_id u) (user_id (payload a)))
      \<longrightarrow> (\<exists>i < length (users s).
            strict_eq (user_id (users s ! i)) (user_id (payload a))
            \<and> (\<forall>j < i. \<not> strict_eq (user_id (users s ! j)) (user_id (payload a)))
            \<and> users (reducer_users s a)
                = (users s)[i := (users s ! i)\<lparr>user_name := user_name (payload a)\<rparr>]
            \<and> length (users (reducer_users s a)) = length (users s)
            \<and> user_name (users (reducer_users s a) ! i) = user_name (payload a)
            \<and> user_id (users (reducer_users s a) ! i) = user_id (users s ! i)
            \<and> (\<forall>k < length (users s). k \<noteq> i \<longrightarrow> users (reducer_users s a) ! k = users s ! k)))
   \<and> (action_type a = ''add_user'' \<longrightarrow> users (reducer_users s a) = users s @ [payload a])
   \<and> (action_type a \<noteq> ''add_user'' \<and> action_type a \<noteq> ''update_user'' \<longrightarrow> reducer_users s a = s)"
proof (intro conjI impI)
  assume h: "action_type a = ''update_user''
      \<and> (\<forall>u \<in> set (users s). \<not> strict_eq (user_id u) (user_id (payload a)))"
  then have "findIndex (\<lambda>u. strict_eq (user_id u) (user_id (payload a))) (users s) = None"
    by (simp add: findIndex_None)
  with h show "reducer_users s a = s"
    by (simp add: reducer_users_def)
next
  let ?p = "\<lambda>u. strict_eq (user_id u) (user_id (payload a))"
  assume h: "action_type a = ''update_user'' \<and> (\<exists>u \<in> set (users s). ?p u)"
  then have "findIndex ?p (users s) \<noteq> None"
    by (simp add: findIndex_None)
  then obtain i where i: "findIndex ?p (users s) = Some i"
    by auto
  from findIndex_Some [OF i]
  have il: "i < length (users s)" and ip: "?p (users s ! i)"
    and first: "\<forall>j < i. \<not> ?p (users s ! j)"
    by simp_all
  from h i have r: "users (reducer_users s a)
      = (users s)[i := (users s ! i)\<lparr>user_name := user_name (payload a)\<rparr>]"
    by (simp add: reducer_users_def)
  show "\<exists>i < length (users s).
            strict_eq (user_id (users s ! i)) (user_id (payload a))
            \<and> (\<forall>j < i. \<not> strict_eq (user_id (users s ! j)) (user_id (payload a)))
            \<and> users (reducer_users s a)
                = (users s)[i := (users s ! i)\<lparr>user_name := user_name (payload a)\<rparr>]
            \<and> length (users (reducer_users s a)) = length (users s)
            \<and> user_name (users (reducer_users s a) ! i) = user_name (payload a)
            \<and> user_id (users (reducer_users s a) ! i) = user_id (users s ! i)
            \<and> (\<forall>k < length (users s). k \<noteq> i \<longrightarrow> users (reducer_users s a) ! k = users s ! k)"
    using il ip first r by (intro exI [of _ i]) simp
next
  assume "action_type a = ''add_user''"
  then show "users (reducer_users s a) = users s @ [payload a]"
    by (simp add: reducer_users_def)
next
  assume "action_type a \<noteq> ''add_user'' \<and> action_type a \<noteq> ''update_user''"
  then show "reducer_users s a = s"
    by (simp add: reducer_users_def)
qed

theorem reducer_users_frame_witness:
  "reducer_users
     \<lparr>users = [\<lparr>user_id = Num 1, user_name = ''Ann''\<rparr>, \<lparr>user_id = Num 2, user_name = ''Bob''\<rparr>,
               \<lparr>user_id = Num 2, user_name = ''Cy''\<rparr>]\<rparr>
     \<lparr>action_type = ''update_user'', payload = \<lparr>user_id = Num 2, user_name = ''Updated User''\<rparr>\<rparr>
   = \<lparr>users = [\<lparr>user_id = Num 1, user_name = ''Ann''\<rparr>, \<lparr>user_id = Num 2, user_name = ''Updated User''\<rparr>,
               \<lparr>user_id = Num 2, user_name = ''Cy''\<rparr>]\<rparr>
   \<and> reducer_users \<lparr>users = [\<lparr>user_id = NaN, user_name = ''Ann''\<rparr>]\<rparr>
        \<lparr>action_type = ''update_user'', payload = \<lparr>user_id = NaN, user_name = ''Updated User''\<rparr>\<rparr>
      = \<lparr>users = [\<lparr>user_id = NaN, user_name = ''Ann''\<rparr>]\<rparr>
   \<and> users (reducer_users \<lparr>users = [\<lparr>user_id = Num 1, user_name = ''Ann''\<rparr>]\<rparr>
        \<lparr>action_type = ''add_user'', payload = \<lparr>user_id = Num 7, user_name = ''New User''\<rparr>\<rparr>)
      = [\<lparr>user_id = Num 1, user_name = ''Ann''\<rparr>, \<lparr>user_id = Num 7, user_name = ''New User''\<rparr>]
   \<and> reducer_users \<lparr>users = [\<lparr>user_id = Num 1, user_name = ''Ann''\<rparr>]\<rparr>
        \<lparr>action_type = ''reset'', payload = \<lparr>user_id = Num 1, user_name = ''x''\<rparr>\<rparr>
      = \<lparr>users = [\<lparr>user_id = Num 1, user_name = ''Ann''\<rparr>]\<rparr>"
  using
    reducer_users_frame [of
      "\<lparr>action_type = ''update_user'', payload = \<lparr>user_id = Num 2, user_name = ''Updated User''\<rparr>\<rparr>"
      "\<lparr>users = [\<lparr>user_id = Num 1, user_name = ''Ann''\<rparr>, \<lparr>user_id = Num 2, user_name = ''Bob''\<rparr>,
               \<lparr>user_id = Num 2, user_name = ''Cy''\<rparr>]\<rparr>"]
    reducer_users_frame [of
      "\<lparr>action_type = ''update_user'', payload = \<lparr>user_id = NaN, user_name = ''Updated User''\<rparr>\<rparr>"
      "\<lparr>users = [\<lparr>user_id = NaN, user_name = ''Ann''\<rparr>]\<rparr>"]
    reducer_users_frame [of
      "\<lparr>action_type = ''add_user'', payload = \<lparr>user_id = Num 7, user_name = ''New User''\<rparr>\<rparr>"
      "\<lparr>users = [\<lparr>user_id = Num 1, user_name = ''Ann''\<rparr>]\<rparr>"]
    reducer_users_frame [of
      "\<lparr>action_type = ''reset'', payload = \<lparr>user_id = Num 1, user_name = ''x''\<rparr>\<rparr>"
      "\<lparr>users = [\<lparr>user_id = Num 1, user_name = ''Ann''\<rparr>]\<rparr>"]
  by (simp add: strict_eq_def reducer_users_def)

subsection \<open>The toggle machine\<close>

lemma toggle_step:
  "transition toggleMachine s e =
     (if e = ''TOGGLE''
      then (if s = ''inactive'' then ''active'' else if s = ''active'' then ''inactive'' else s)
      else s)"
  by (simp add: transition_def toggleMachine_def)

lemma toggle_closed:
  "s = ''inactive'' \<or> s = ''active'' \<Longrightarrow>
   transition toggleMachine s e = ''inactive'' \<or> transition toggleMachine s e = ''active''"
  by (auto simp: toggle_step)

lemma foldl_toggle_closed:
  "s = ''inactive'' \<or> s = ''active'' \<Longrightarrow>
   foldl (transition toggleMachine) s events = ''inactive''
   \<or> foldl (transition toggleMachine) s events = ''active''"
proof (induction events arbitrary: s)
  case Nil
  then show ?case by simp
next
  case (Cons e events)
  from Cons.IH [OF toggle_closed [OF Cons.prems, of e]] show ?case by simp
qed

lemma foldl_toggle_parity:
  "s = ''inactive'' \<or> s = ''active'' \<Longrightarrow>
   foldl (transition toggleMachine) s (replicate n ''TOGGLE'')
     = (if even n then s else transition toggleMachine s ''TOGGLE'')"
proof (induction n arbitrary: s)
  case 0
  then show ?case by simp
next
  case (Suc n)
  from Suc.IH [OF toggle_closed [OF Suc.prems, of "''TOGGLE''"]] Suc.prems show ?case
    by (auto simp: toggle_step)
qed

text \<open>
  C2, as the code has it. The patterns document does define a state machine:
  \<^verbatim>\<open>toggleMachine\<close> is a finite state machine with the two named states
  \<^verbatim>\<open>inactive\<close> and \<^verbatim>\<open>active\<close>, the initial state \<^verbatim>\<open>inactive\<close>, and a
  transition labelled \<^verbatim>\<open>TOGGLE\<close> from each state to the other. Any other event leaves
  the state as it is, every sequence of events ends in one of the two states, and after
  \<open>n\<close> \<^verbatim>\<open>TOGGLE\<close> events the machine is \<^verbatim>\<open>active\<close> exactly when \<open>n\<close> is odd.
\<close>

theorem toggleMachine_is_state_machine:
  "is_state_machine toggleMachine
   \<and> state_names toggleMachine = [''inactive'', ''active'']
   \<and> initial toggleMachine = ''inactive''
   \<and> transition toggleMachine ''inactive'' ''TOGGLE'' = ''active''
   \<and> transition toggleMachine ''active'' ''TOGGLE'' = ''inactive''
   \<and> (e \<noteq> ''TOGGLE'' \<longrightarrow> transition toggleMachine s e = s)
   \<and> List.member (state_names toggleMachine) (send_all toggleMachine events)
   \<and> send_all toggleMachine (replicate n ''TOGGLE'') = (if even n then ''inactive'' else ''active'')"
proof -
  have fsm: "is_state_machine toggleMachine"
    by (simp add: is_state_machine_def toggleMachine_def state_names_def)
  have names: "state_names toggleMachine = [''inactive'', ''active'']"
    by (simp add: toggleMachine_def state_names_def)
  have init: "initial toggleMachine = ''inactive''"
    by (simp add: toggleMachine_def)
  have reach: "List.member (state_names toggleMachine) (send_all toggleMachine events)"
    using foldl_toggle_closed [of "''inactive''" events]
    by (auto simp: names init send_all_def)
  have parity: "send_all toggleMachine (replicate n ''TOGGLE'')
      = (if even n then ''inactive'' else ''active'')"
    using foldl_toggle_parity [of "''inactive''" n]
    by (simp add: send_all_def init toggle_step)
  show ?thesis
    using fsm names init reach parity by (simp add: toggle_step)
qed

theorem toggleMachine_is_state_machine_witness:
  "''RESET'' \<noteq> ''TOGGLE''
   \<and> transition toggleMachine ''active'' ''RESET'' = ''active''
   \<and> send_all toggleMachine [''TOGGLE'', ''TOGGLE'', ''TOGGLE''] = ''active''
   \<and> List.member (state_names toggleMachine) (send_all toggleMachine [''TOGGLE'', ''RESET''])"
  using toggleMachine_is_state_machine
    [where e = "''RESET''" and s = "''active''" and n = 3 and events = "[''TOGGLE'', ''RESET'']"]
  by (auto simp: numeral_3_eq_3)

theorem no_state_machine_counterexample:
  "is_state_machine toggleMachine
   \<and> initial toggleMachine = ''inactive''
   \<and> transition toggleMachine ''inactive'' ''TOGGLE'' = ''active''
   \<and> transition toggleMachine ''active'' ''TOGGLE'' = ''inactive''"
  by (simp add: is_state_machine_def toggleMachine_def state_names_def transition_def)

subsection \<open>Throttle, debounce and the mounted flag\<close>

lemma cleanup_removes_handler:
  "handler st = Some h \<Longrightarrow> \<not> List.member (map fst (timers (cleanup st))) h"
  by (auto simp: cleanup_def clearTimeout_def)

lemma timer_delay_in_range: "0 \<le> d \<Longrightarrow> d < 2 ^ 31 \<Longrightarrow> timer_delay d = d"
  by (simp add: timer_delay_def ToInt32_def)

lemma debounce_first_change:
  "v1 \<noteq> v0 \<Longrightarrow>
   useDebounce v1 d t1 (tick a1 (mount v0 d t0))
     = \<lparr>debouncedValue = v0, timers = [(1, t1 + timer_delay d, v1)], nextHandle = 2,
        handler = Some 1, deps = Some (v1, d)\<rparr>"
  by (simp add: useDebounce_def tick_def mount_def effect_def cleanup_def setTimeout_def
      clearTimeout_def)

lemma debounce_second_change:
  assumes "v1 \<noteq> v0" and "v2 \<noteq> v1" and "a2 < t1 + timer_delay d"
  shows "useDebounce v2 d t2 (tick a2 (useDebounce v1 d t1 (tick a1 (mount v0 d t0))))
     = \<lparr>debouncedValue = v0, timers = [(2, t2 + timer_delay d, v2)], nextHandle = 3,
        handler = Some 2, deps = Some (v2, d)\<rparr>"
proof -
  have first: "useDebounce v1 d t1 (tick a1 (mount v0 d t0))
      = \<lparr>debouncedValue = v0, timers = [(1, t1 + timer_delay d, v1)], nextHandle = 2,
         handler = Some 1, deps = Some (v1, d)\<rparr>"
    using assms(1) by (rule debounce_first_change)
  show ?thesis
    unfolding first using assms(2,3)
    by (simp add: useDebounce_def tick_def effect_def cleanup_def setTimeout_def clearTimeout_def)
qed

text \<open>
  C3, as the code has it. The snippets do implement scheduling and cancellation. The
  function \<^verbatim>\<open>useThrottle\<close> returns runs the callback and records the time exactly
  when at least \<^verbatim>\<open>delay\<close> milliseconds have passed since the last call that went
  through; a call that comes earlier changes nothing. The cleanup of \<^verbatim>\<open>useDebounce\<close>
  removes the timeout its effect scheduled: when the value changes and then changes again
  before the first change's timer is due, then, whenever the browser ran its timers in
  between, only the timer of the latest value is pending and the value in between is never
  written to \<^verbatim>\<open>debouncedValue\<close>, whenever the remaining timer runs; when the
  browser runs its timers after the first change's timer is due, with no change before,
  the value in between is written. The timer waits \<open>timer_delay delay\<close> milliseconds,
  which is \<^verbatim>\<open>delay\<close> itself between \<open>0\<close> and \<open>2^31 - 1\<close>. While
  \<^verbatim>\<open>isMounted\<close> is set \<^verbatim>\<open>loadData\<close> stores a fetched result and clears
  \<^verbatim>\<open>loading\<close>; once the cleanup of \<^verbatim>\<open>DataFetchingComponent\<close> has cleared the
  flag, \<^verbatim>\<open>loadData\<close> updates no state, whatever the request settles to.
\<close>

theorem throttle_debounce_unmount_cancel:
  "(now - lastCall t < delay \<longrightarrow> useThrottle callback delay now t = t)
   \<and> (delay \<le> now - lastCall t \<longrightarrow>
        useThrottle callback delay now t = \<lparr>lastCall = now, world = callback (world t)\<rparr>)
   \<and> (handler st = Some h \<longrightarrow> \<not> List.member (map fst (timers (cleanup st))) h)
   \<and> (0 \<le> d \<and> d < 2 ^ 31 \<longrightarrow> timer_delay d = d)
   \<and> (v1 \<noteq> v0 \<and> v2 \<noteq> v1 \<and> a2 \<le> t2 \<and> t2 < t1 + timer_delay d \<longrightarrow>
        timers (useDebounce v2 d t2 (tick a2 (useDebounce v1 d t1 (tick a1 (mount v0 d t0)))))
          = [(2, t2 + timer_delay d, v2)]
        \<and> debouncedValue (tick a2 (useDebounce v1 d t1 (tick a1 (mount v0 d t0)))) = v0
        \<and> debouncedValue
            (tick T (useDebounce v2 d t2 (tick a2 (useDebounce v1 d t1 (tick a1 (mount v0 d t0))))))
          = (if t2 + timer_delay d \<le> T then v2 else v0))
   \<and> (v1 \<noteq> v0 \<and> t1 + timer_delay d \<le> a2 \<longrightarrow>
        debouncedValue (tick a2 (useDebounce v1 d t1 (tick a1 (mount v0 d t0)))) = v1)
   \<and> (isMounted s \<longrightarrow> loadData (Resolved result) s = s\<lparr>data := result, loading := False\<rparr>)
   \<and> loadData settled (unmount s) = unmount s"
proof (intro conjI impI)
  assume "now - lastCall t < delay"
  then show "useThrottle callback delay now t = t"
    by (simp add: useThrottle_def)
next
  assume "delay \<le> now - lastCall t"
  then show "useThrottle callback delay now t = \<lparr>lastCall = now, world = callback (world t)\<rparr>"
    by (simp add: useThrottle_def)
next
  assume "handler st = Some h"
  then show "\<not> List.member (map fst (timers (cleanup st))) h"
    by (rule cleanup_removes_handler)
next
  assume "0 \<le> d \<and> d < 2 ^ 31"
  then show "timer_delay d = d"
    by (simp add: timer_delay_in_range)
next
  assume h: "v1 \<noteq> v0 \<and> v2 \<noteq> v1 \<and> a2 \<le> t2 \<and> t2 < t1 + timer_delay d"
  then show "timers (useDebounce v2 d t2 (tick a2 (useDebounce v1 d t1 (tick a1 (mount v0 d t0)))))
      = [(2, t2 + timer_delay d, v2)]"
    by (simp add: debounce_second_change)
  from h have first: "useDebounce v1 d t1 (tick a1 (mount v0 d t0))
      = \<lparr>debouncedValue = v0, timers = [(1, t1 + timer_delay d, v1)], nextHandle = 2,
         handler = Some 1, deps = Some (v1, d)\<rparr>"
    by (simp add: debounce_first_change)
  from h show "debouncedValue (tick a2 (useDebounce v1 d t1 (tick a1 (mount v0 d t0)))) = v0"
    unfolding first by (simp add: tick_def)
  from h have second: "useDebounce v2 d t2 (tick a2 (useDebounce v1 d t1 (tick a1 (mount v0 d t0))))
      = \<lparr>debouncedValue = v0, timers = [(2, t2 + timer_delay d, v2)], nextHandle = 3,
         handler = Some 2, deps = Some (v2, d)\<rparr>"
    by (simp add: debounce_second_change)
  show "debouncedValue
        (tick T (useDebounce v2 d t2 (tick a2 (useDebounce v1 d t1 (tick a1 (mount v0 d t0))))))
      = (if t2 + timer_delay d \<le> T then v2 else v0)"
    unfolding second by (simp add: tick_def)
next
  assume h: "v1 \<noteq> v0 \<and> t1 + timer_delay d \<le> a2"
  then have first: "useDebounce v1 d t1 (tick a1 (mount v0 d t0))
      = \<lparr>debouncedValue = v0, timers = [(1, t1 + timer_delay d, v1)], nextHandle = 2,
         handler = Some 1, deps = Some (v1, d)\<rparr>"
    by (simp add: debounce_first_change)
  from h show "debouncedValue (tick a2 (useDebounce v1 d t1 (tick a1 (mount v0 d t0)))) = v1"
    unfolding first by (simp add: tick_def)
next
  assume "isMounted s"
  then show "loadData (Resolved result) s = s\<lparr>data := result, loading := False\<rparr>"
    by (simp add: loadData_def)
next
  show "loadData settled (unmount s) = unmount s"
    by (cases settled) (simp_all add: loadData_def unmount_def)
qed

theorem throttle_debounce_unmount_cancel_witness:
  "useThrottle Suc 1000 5400 \<lparr>lastCall = 5000, world = 1\<rparr> = \<lparr>lastCall = 5000, world = 1\<rparr>
   \<and> useThrottle Suc 1000 6000 \<lparr>lastCall = 5000, world = 1\<rparr> = \<lparr>lastCall = 6000, world = 2\<rparr>
   \<and> \<not> List.member (map fst (timers (cleanup (mount ''a'' 500 0)))) 0
   \<and> timer_delay 500 = 500
   \<and> debouncedValue
       (tick 550 (useDebounce ''ab'' 500 100 (tick 100
          (useDebounce ''a'' 500 0 (tick 0 (mount '''' 500 (-10)))))))
      = ''''
   \<and> debouncedValue
       (tick 600 (useDebounce ''ab'' 500 100 (tick 100
          (useDebounce ''a'' 500 0 (tick 0 (mount '''' 500 (-10)))))))
      = ''ab''
   \<and> debouncedValue (tick 700 (useDebounce ''a'' 500 0 (tick 0 (mount '''' 500 (-10))))) = ''a''
   \<and> loadData (Resolved [''x'']) \<lparr>data = [], loading = True, isMounted = True\<rparr>
      = \<lparr>data = [''x''], loading = False, isMounted = True\<rparr>
   \<and> loadData (Resolved [''x'']) (unmount \<lparr>data = [], loading = True, isMounted = True\<rparr>)
      = \<lparr>data = [], loading = True, isMounted = False\<rparr>"
  using
    throttle_debounce_unmount_cancel
      [where now = 5400 and delay = 1000 and t = "\<lparr>lastCall = 5000, world = 1\<rparr>" and callback = Suc
         and st = "mount ''a'' 500 0" and h = 0
         and ?v0.0 = "''''" and ?v1.0 = "''a''" and ?v2.0 = "''ab''" and d = 500 and ?t0.0 = "-10"
         and ?t1.0 = 0 and ?t2.0 = 100 and T = 550 and ?a1.0 = 0 and ?a2.0 = 100 and result = "[''x'']"
         and settled = "Resolved [''x'']" and s = "\<lparr>data = [], loading = True, isMounted = True\<rparr>"]
    throttle_debounce_unmount_cancel
      [where now = 6000 and delay = 1000 and t = "\<lparr>lastCall = 5000, world = 1\<rparr>" and callback = Suc
         and st = "mount ''a'' 500 0" and h = 0
         and ?v0.0 = "''''" and ?v1.0 = "''a''" and ?v2.0 = "''ab''" and d = 500 and ?t0.0 = "-10"
         and ?t1.0 = 0 and ?t2.0 = 100 and T = 600 and ?a1.0 = 0 and ?a2.0 = 100 and result = "[''x'']"
         and settled = "Resolved [''x'']" and s = "\<lparr>data = [], loading = True, isMounted = True\<rparr>"]
    throttle_debounce_unmount_cancel
      [where now = 6000 and delay = 1000 and t = "\<lparr>lastCall = 5000, world = 1\<rparr>" and callback = Suc
         and st = "mount ''a'' 500 0" and h = 0
         and ?v0.0 = "''''" and ?v1.0 = "''a''" and ?v2.0 = "''ab''" and d = 500 and ?t0.0 = "-10"
         and ?t1.0 = 0 and ?t2.0 = 700 and T = 600 and ?a1.0 = 0 and ?a2.0 = 700 and result = "[''x'']"
         and settled = "Resolved [''x'']" and s = "\<lparr>data = [], loading = True, isMounted = True\<rparr>"]
  by (simp add: mount_def effect_def setTimeout_def unmount_def timer_delay_def ToInt32_def)

theorem every_call_invokes_callback_counterexample:
  "world (useThrottle Suc 1000 5400 (useThrottle Suc 1000 5000 \<lparr>lastCall = 0, world = 0\<rparr>)) = 1
   \<and> timers (useDebounce ''ab'' 500 100 (tick 100
        (useDebounce ''a'' 500 0 (tick 0 (mount '''' 500 (-10))))))
      = [(2, 600, ''ab'')]
   \<and> debouncedValue
       (tick 550 (useDebounce ''ab'' 500 100 (tick 100
          (useDebounce ''a'' 500 0 (tick 0 (mount '''' 500 (-10)))))))
      = ''''
   \<and> loadData (Resolved [''x'']) (unmount \<lparr>data = [], loading = True, isMounted = True\<rparr>)
      = \<lparr>data = [], loading = True, isMounted = False\<rparr>"
  by (simp add: useThrottle_def tick_def useDebounce_def mount_def effect_def cleanup_def
      setTimeout_def clearTimeout_def timer_delay_def ToInt32_def loadData_def unmount_def)

subsection \<open>Local storage and the counter\<close>

lemma setValue_written:
  "JSON_stringify p v = Inr str \<Longrightarrow> \<not> denied (localStorage w) \<Longrightarrow>
   fits p (items (localStorage w)) key str \<Longrightarrow>
   setValue p key v w
     = (setStoredValue p v w)
         \<lparr>localStorage := (localStorage w)\<lparr>items := (items (localStorage w))(key \<mapsto> str)\<rparr>\<rparr>"
  by (simp add: setValue_def setItem_def setStoredValue_def)

lemma setValue_other_keys:
  "k \<noteq> key \<Longrightarrow> items (localStorage (setValue p key v w)) k = items (localStorage w) k"
  by (simp add: setValue_def setItem_def setStoredValue_def Let_def split: sum.splits)

lemma setValue_denied: "denied (localStorage (setValue p key v w)) = denied (localStorage w)"
  by (simp add: setValue_def setItem_def setStoredValue_def Let_def split: sum.splits)

lemma setValue_plain_value:
  "as_function p v = None \<Longrightarrow> storedValue (setValue p key v w) = v"
  by (simp add: setValue_def setStoredValue_def Let_def split: sum.splits)

text \<open>
  C1, as the code has it. Round-trip properties do hold of operation pairs in the snippets.
  The counter reducer's \<^verbatim>\<open>increment\<close> and \<^verbatim>\<open>decrement\<close> invert each other, in
  either order, on every safe integer count. For \<^verbatim>\<open>useLocalStorage\<close>, the state cell
  holds the written value after \<^verbatim>\<open>setValue\<close> of any value that is not a function
  (React applies a function to the previous state instead of storing it); and for every
  value that \<^verbatim>\<open>JSON.stringify\<close> turns into a non-empty text that
  \<^verbatim>\<open>JSON.parse\<close> turns back into the value, when the storage is accessible and the
  text fits the quota, \<^verbatim>\<open>getItem(key)\<close> right after \<^verbatim>\<open>setValue(value)\<close>
  returns that text and the hook's read of the key returns the value.
\<close>

theorem reducer_and_storage_round_trip:
  "(isSafeInteger (count s) \<longrightarrow>
      reducer_counter (reducer_counter s ''increment'') ''decrement'' = s
      \<and> reducer_counter (reducer_counter s ''decrement'') ''increment'' = s
      \<and> \<bar>count (reducer_counter s ''increment'')\<bar> \<le> 2 ^ 53
      \<and> \<bar>count (reducer_counter s ''decrement'')\<bar> \<le> 2 ^ 53)
   \<and> (as_function p v = None \<longrightarrow> storedValue (setValue p key v w) = v)
   \<and> (JSON_stringify p v = Inr str \<and> str \<noteq> [] \<and> JSON_parse p str = Inr v
       \<and> \<not> denied (localStorage w) \<and> fits p (items (localStorage w)) key str \<longrightarrow>
         getItem (localStorage (setValue p key v w)) key = Inr (Some str)
         \<and> initialStoredValue p (localStorage (setValue p key v w)) key initialValue = v)"
proof (intro conjI impI)
  assume "isSafeInteger (count s)"
  then show "\<bar>count (reducer_counter s ''increment'')\<bar> \<le> 2 ^ 53"
    and "\<bar>count (reducer_counter s ''decrement'')\<bar> \<le> 2 ^ 53"
    by (auto simp: reducer_counter_def isSafeInteger_def)
next
  show "reducer_counter (reducer_counter s ''increment'') ''decrement'' = s"
    and "reducer_counter (reducer_counter s ''decrement'') ''increment'' = s"
    by (simp_all add: reducer_counter_def)
next
  assume "as_function p v = None"
  then show "storedValue (setValue p key v w) = v"
    by (rule setValue_plain_value)
next
  assume h: "JSON_stringify p v = Inr str \<and> str \<noteq> [] \<and> JSON_parse p str = Inr v
       \<and> \<not> denied (localStorage w) \<and> fits p (items (localStorage w)) key str"
  then have written: "localStorage (setValue p key v w)
      = (localStorage w)\<lparr>items := (items (localStorage w))(key \<mapsto> str)\<rparr>"
    by (simp add: setValue_written)
  from h show "getItem (localStorage (setValue p key v w)) key = Inr (Some str)"
    by (simp add: written getItem_def)
  from h show "initialStoredValue p (localStorage (setValue p key v w)) key initialValue = v"
    by (simp add: written initialStoredValue_def getItem_def)
qed

theorem reducer_and_storage_round_trip_witness:
  "isSafeInteger 41
   \<and> reducer_counter (reducer_counter \<lparr>count = 41\<rparr> ''increment'') ''decrement'' = \<lparr>count = 41\<rparr>
   \<and> storedValue
        (setValue
          \<lparr>JSON_stringify = (\<lambda>b. Inr (if b then ''true'' else ''false'')),
            JSON_parse = (\<lambda>t. if t = ''true'' then Inr True
                               else if t = ''false'' then Inr False else Inl SyntaxError),
            fits = (\<lambda>m k t. True), as_function = (\<lambda>b. None)\<rparr>
          ''dark'' True
          \<lparr>storedValue = False, localStorage = \<lparr>items = Map.empty, denied = False\<rparr>, console = []\<rparr>)
      = True
   \<and> getItem
        (localStorage
          (setValue
            \<lparr>JSON_stringify = (\<lambda>b. Inr (if b then ''true'' else ''false'')),
              JSON_parse = (\<lambda>t. if t = ''true'' then Inr True
                                 else if t = ''false'' then Inr False else Inl SyntaxError),
              fits = (\<lambda>m k t. True), as_function = (\<lambda>b. None)\<rparr>
            ''dark'' True
            \<lparr>storedValue = False, localStorage = \<lparr>items = Map.empty, denied = False\<rparr>, console = []\<rparr>))
        ''dark''
      = Inr (Some ''true'')
   \<and> initialStoredValue
        \<lparr>JSON_stringify = (\<lambda>b. Inr (if b then ''true'' else ''false'')),
          JSON_parse = (\<lambda>t. if t = ''true'' then Inr True
                             else if t = ''false'' then Inr False else Inl SyntaxError),
          fits = (\<lambda>m k t. True), as_function = (\<lambda>b. None)\<rparr>
        (localStorage
          (setValue
            \<lparr>JSON_stringify = (\<lambda>b. Inr (if b then ''true'' else ''false'')),
              JSON_parse = (\<lambda>t. if t = ''true'' then Inr True
                                 else if t = ''false'' then Inr False else Inl SyntaxError),
              fits = (\<lambda>m k t. True), as_function = (\<lambda>b. None)\<rparr>
            ''dark'' True
            \<lparr>storedValue = False, localStorage = \<lparr>items = Map.empty, denied = False\<rparr>, console = []\<rparr>))
        ''dark'' False
      = True"
  using reducer_and_storage_round_trip
    [where s = "\<lparr>count = 41\<rparr>" and v = True and str = "''true''" and key = "''dark''"
       and initialValue = False
       and p = "\<lparr>JSON_stringify = (\<lambda>b. Inr (if b then ''true'' else ''false'')),
              JSON_parse = (\<lambda>t. if t = ''true'' then Inr True
                                 else if t = ''false'' then Inr False else Inl SyntaxError),
              fits = (\<lambda>m k t. True), as_function = (\<lambda>b. None)\<rparr>"
       and w = "\<lparr>storedValue = False, localStorage = \<lparr>items = Map.empty, denied = False\<rparr>,
                 console = []\<rparr>"]
  by (simp add: isSafeInteger_def)

theorem no_round_trip_counterexample:
  "reducer_counter (reducer_counter \<lparr>count = 0\<rparr> ''increment'') ''decrement'' = \<lparr>count = 0\<rparr>
   \<and> reducer_counter (reducer_counter \<lparr>count = 0\<rparr> ''decrement'') ''increment'' = \<lparr>count = 0\<rparr>
   \<and> getItem
        (localStorage
          (setValue
            \<lparr>JSON_stringify = (\<lambda>b. Inr (if b then ''true'' else ''false'')),
              JSON_parse = (\<lambda>t. if t = ''true'' then Inr True
                                 else if t = ''false'' then Inr False else Inl SyntaxError),
              fits = (\<lambda>m k t. True), as_function = (\<lambda>b. None)\<rparr>
            ''dark'' True
            \<lparr>storedValue = False, localStorage = \<lparr>items = Map.empty, denied = False\<rparr>, console = []\<rparr>))
        ''dark''
      = Inr (Some ''true'')"
  by (simp add: reducer_counter_def setValue_def setStoredValue_def setItem_def getItem_def)

text \<open>
  C6, as the code has it. \<^verbatim>\<open>setValue\<close> does write outside the component's memory.
  Whatever happens, it leaves every other key of local storage as it was. When the storage
  is accessible, \<^verbatim>\<open>JSON.stringify\<close> gives a text and the text fits, it stores the
  text under the key; and when the text is non-empty and parses back to the value, the
  hook mounted after a page refresh starts with that value, not with
  \<^verbatim>\<open>initialValue\<close>. Otherwise the storage is unchanged and the exception is logged:
  the security error when access is denied, else the exception \<^verbatim>\<open>JSON.stringify\<close>
  throws, else the quota error when the text does not fit.
\<close>

theorem setValue_writes_local_storage:
  "(k \<noteq> key \<longrightarrow> items (localStorage (setValue p key v w)) k = items (localStorage w) k)
   \<and> denied (localStorage (setValue p key v w)) = denied (localStorage w)
   \<and> (JSON_stringify p v = Inr str \<and> \<not> denied (localStorage w)
       \<and> fits p (items (localStorage w)) key str \<longrightarrow>
         items (localStorage (setValue p key v w)) key = Some str
         \<and> console (setValue p key v w) = console w
         \<and> (str \<noteq> [] \<and> JSON_parse p str = Inr v \<longrightarrow>
              storedValue (refresh p key initialValue (setValue p key v w)) = v
              \<and> localStorage (refresh p key initialValue (setValue p key v w))
                  = localStorage (setValue p key v w)))
   \<and> (denied (localStorage w) \<longrightarrow>
         localStorage (setValue p key v w) = localStorage w
         \<and> console (setValue p key v w) = console w @ [SecurityError])
   \<and> (\<not> denied (localStorage w) \<and> JSON_stringify p v = Inl e \<longrightarrow>
         localStorage (setValue p key v w) = localStorage w
         \<and> console (setValue p key v w) = console w @ [e])
   \<and> (\<not> denied (localStorage w) \<and> JSON_stringify p v = Inr str
       \<and> \<not> fits p (items (localStorage w)) key str \<longrightarrow>
         localStorage (setValue p key v w) = localStorage w
         \<and> console (setValue p key v w) = console w @ [QuotaExceededError])"
proof (intro conjI impI)
  assume "k \<noteq> key"
  then show "items (localStorage (setValue p key v w)) k = items (localStorage w) k"
    by (rule setValue_other_keys)
next
  show "denied (localStorage (setValue p key v w)) = denied (localStorage w)"
    by (rule setValue_denied)
next
  assume h: "JSON_stringify p v = Inr str \<and> \<not> denied (localStorage w)
       \<and> fits p (items (localStorage w)) key str"
  then have written: "setValue p key v w
     = (setStoredValue p v w)
         \<lparr>localStorage := (localStorage w)\<lparr>items := (items (localStorage w))(key \<mapsto> str)\<rparr>\<rparr>"
    by (simp add: setValue_written)
  show "items (localStorage (setValue p key v w)) key = Some str"
    by (simp add: written)
  show "console (setValue p key v w) = console w"
    by (simp add: written setStoredValue_def)
  assume "str \<noteq> [] \<and> JSON_parse p str = Inr v"
  with h show "storedValue (refresh p key initialValue (setValue p key v w)) = v"
    by (simp add: written refresh_def useLocalStorage_def initialStoredValue_def getItem_def)
  show "localStorage (refresh p key initialValue (setValue p key v w))
      = localStorage (setValue p key v w)"
    by (simp add: refresh_def useLocalStorage_def)
next
  assume "denied (localStorage w)"
  then show "localStorage (setValue p key v w) = localStorage w"
    and "console (setValue p key v w) = console w @ [SecurityError]"
    by (simp_all add: setValue_def setStoredValue_def)
next
  assume "\<not> denied (localStorage w) \<and> JSON_stringify p v = Inl e"
  then show "localStorage (setValue p key v w) = localStorage w"
    and "console (setValue p key v w) = console w @ [e]"
    by (simp_all add: setValue_def setStoredValue_def)
next
  assume "\<not> denied (localStorage w) \<and> JSON_stringify p v = Inr str
       \<and> \<not> fits p (items (localStorage w)) key str"
  then show "localStorage (setValue p key v w) = localStorage w"
    and "console (setValue p key v w) = console w @ [QuotaExceededError]"
    by (simp_all add: setValue_def setStoredValue_def setItem_def)
qed

theorem setValue_writes_local_storage_witness:
  "items
     (localStorage
       (setValue
         \<lparr>JSON_stringify = (\<lambda>b. Inr (if b then ''true'' else ''false'')),
           JSON_parse = (\<lambda>t. if t = ''true'' then Inr True
                              else if t = ''false'' then Inr False else Inl SyntaxError),
           fits = (\<lambda>m k t. True), as_function = (\<lambda>b. None)\<rparr>
         ''dark'' True
         \<lparr>storedValue = False,
           localStorage = \<lparr>items = [''lang'' \<mapsto> ''en''], denied = False\<rparr>, console = []\<rparr>))
     ''dark''
   = Some ''true''
   \<and> items
     (localStorage
       (setValue
         \<lparr>JSON_stringify = (\<lambda>b. Inr (if b then ''true'' else ''false'')),
           JSON_parse = (\<lambda>t. if t = ''true'' then Inr True
                              else if t = ''false'' then Inr False else Inl SyntaxError),
           fits = (\<lambda>m k t. True), as_function = (\<lambda>b. None)\<rparr>
         ''dark'' True
         \<lparr>storedValue = False,
           localStorage = \<lparr>items = [''lang'' \<mapsto> ''en''], denied = False\<rparr>, console = []\<rparr>))
     ''lang''
   = Some ''en''
   \<and> storedValue
     (refresh
       \<lparr>JSON_stringify = (\<lambda>b. Inr (if b then ''true'' else ''false'')),
         JSON_parse = (\<lambda>t. if t = ''true'' then Inr True
                            else if t = ''false'' then Inr False else Inl SyntaxError),
         fits = (\<lambda>m k t. True), as_function = (\<lambda>b. None)\<rparr>
       ''dark'' False
       (setValue
         \<lparr>JSON_stringify = (\<lambda>b. Inr (if b then ''true'' else ''false'')),
           JSON_parse = (\<lambda>t. if t = ''true'' then Inr True
                              else if t = ''false'' then Inr False else Inl SyntaxError),
           fits = (\<lambda>m k t. True), as_function = (\<lambda>b. None)\<rparr>
         ''dark'' True
         \<lparr>storedValue = False,
           localStorage = \<lparr>items = [''lang'' \<mapsto> ''en''], denied = False\<rparr>, console = []\<rparr>))
   = True
   \<and> console
     (setValue
       \<lparr>JSON_stringify = (\<lambda>b. Inl TypeError), JSON_parse = (\<lambda>t. Inr True),
         fits = (\<lambda>m k t. True), as_function = (\<lambda>b. None)\<rparr>
       ''dark'' True
       \<lparr>storedValue = False, localStorage = \<lparr>items = Map.empty, denied = False\<rparr>, console = []\<rparr>)
   = [TypeError]
   \<and> console
     (setValue
       \<lparr>JSON_stringify = (\<lambda>b. Inl TypeError), JSON_parse = (\<lambda>t. Inr True),
         fits = (\<lambda>m k t. True), as_function = (\<lambda>b. None)\<rparr>
       ''dark'' True
       \<lparr>storedValue = False, localStorage = \<lparr>items = Map.empty, denied = True\<rparr>, console = []\<rparr>)
   = [SecurityError]
   \<and> console
     (setValue
       \<lparr>JSON_stringify = (\<lambda>b. Inr (if b then ''true'' else ''false'')),
         JSON_parse = (\<lambda>t. if t = ''true'' then Inr True
                            else if t = ''false'' then Inr False else Inl SyntaxError),
         fits = (\<lambda>m k t. False), as_function = (\<lambda>b. None)\<rparr>
       ''dark'' True
       \<lparr>storedValue = False, localStorage = \<lparr>items = Map.empty, denied = False\<rparr>, console = []\<rparr>)
   = [QuotaExceededError]"
  using
    setValue_writes_local_storage
      [where k = "''lang''" and key = "''dark''" and v = True and str = "''true''"
         and initialValue = False and e = TypeError
         and p = "\<lparr>JSON_stringify = (\<lambda>b. Inr (if b then ''true'' else ''false'')),
                JSON_parse = (\<lambda>t. if t = ''true'' then Inr True
                                   else if t = ''false'' then Inr False else Inl SyntaxError),
                fits = (\<lambda>m k t. True), as_function = (\<lambda>b. None)\<rparr>"
         and w = "\<lparr>storedValue = False,
                  localStorage = \<lparr>items = [''lang'' \<mapsto> ''en''], denied = False\<rparr>, console = []\<rparr>"]
    setValue_writes_local_storage
      [where k = "''lang''" and key = "''dark''" and v = True and str = "''true''"
         and initialValue = False and e = TypeError
         and p = "\<lparr>JSON_stringify = (\<lambda>b. Inl TypeError), JSON_parse = (\<lambda>t. Inr True),
                fits = (\<lambda>m k t. True), as_function = (\<lambda>b. None)\<rparr>"
         and w = "\<lparr>storedValue = False, localStorage = \<lparr>items = Map.empty, denied = False\<rparr>,
                  console = []\<rparr>"]
    setValue_writes_local_storage
      [where k = "''lang''" and key = "''dark''" and v = True and str = "''true''"
         and initialValue = False and e = TypeError
         and p = "\<lparr>JSON_stringify = (\<lambda>b. Inl TypeError), JSON_parse = (\<lambda>t. Inr True),
                fits = (\<lambda>m k t. True), as_function = (\<lambda>b. None)\<rparr>"
         and w = "\<lparr>storedValue = False, localStorage = \<lparr>items = Map.empty, denied = True\<rparr>,
                  console = []\<rparr>"]
    setValue_writes_local_storage
      [where k = "''lang''" and key = "''dark''" and v = True and str = "''true''"
         and initialValue = False and e = TypeError
         and p = "\<lparr>JSON_stringify = (\<lambda>b. Inr (if b then ''true'' else ''false'')),
                JSON_parse = (\<lambda>t. if t = ''true'' then Inr True
                                   else if t = ''false'' then Inr False else Inl SyntaxError),
                fits = (\<lambda>m k t. False), as_function = (\<lambda>b. None)\<rparr>"
         and w = "\<lparr>storedValue = False, localStorage = \<lparr>items = Map.empty, denied = False\<rparr>,
                  console = []\<rparr>"]
  by simp

theorem nothing_persists_counterexample:
  "items
     (localStorage
       (setValue
         \<lparr>JSON_stringify = (\<lambda>b. Inr (if b then ''true'' else ''false'')),
           JSON_parse = (\<lambda>t. if t = ''true'' then Inr True
                              else if t = ''false'' then Inr False else Inl SyntaxError),
           fits = (\<lambda>m k t. True), as_function = (\<lambda>b. None)\<rparr>
         ''dark'' True
         \<lparr>storedValue = False, localStorage = \<lparr>items = Map.empty, denied = False\<rparr>, console = []\<rparr>))
     ''dark''
   = Some ''true''
   \<and> items (localStorage
        \<lparr>storedValue = False, localStorage = \<lparr>items = Map.empty, denied = False\<rparr>,
          console = ([] :: js_error list)\<rparr>) ''dark''
     = None
   \<and> storedValue
     (refresh
       \<lparr>JSON_stringify = (\<lambda>b. Inr (if b then ''true'' else ''false'')),
         JSON_parse = (\<lambda>t. if t = ''true'' then Inr True
                            else if t = ''false'' then Inr False else Inl SyntaxError),
         fits = (\<lambda>m k t. True), as_function = (\<lambda>b. None)\<rparr>
       ''dark'' False
       (setValue
         \<lparr>JSON_stringify = (\<lambda>b. Inr (if b then ''true'' else ''false'')),
           JSON_parse = (\<lambda>t. if t = ''true'' then Inr True
                              else if t = ''false'' then Inr False else Inl SyntaxError),
           fits = (\<lambda>m k t. True), as_function = (\<lambda>b. None)\<rparr>
         ''dark'' True
         \<lparr>storedValue = False, localStorage = \<lparr>items = Map.empty, denied = False\<rparr>, console = []\<rparr>))
   = True"
  by (simp add: setValue_def setStoredValue_def setItem_def refresh_def useLocalStorage_def
      initialStoredValue_def getItem_def)

subsection \<open>Failed requests\<close>

lemma fetchData_try_cases:
  "fetchData_try settled =
     (case settled of
        Rejected message \<Rightarrow> Inl message
      | Resolved response \<Rightarrow>
          if \<not> ok response then Inl ''Network response was not ok''
          else (case json response of Rejected message \<Rightarrow> Inl message | Resolved d \<Rightarrow> Inr d))"
  by (simp add: fetchData_try_def)

lemma fetchUsers_try_fails:
  "fetchUsers_try users_of settled
     = Inl (case settled of Rejected message \<Rightarrow> message
            | Resolved response \<Rightarrow> ''Fetching data about users failed'')"
  by (cases settled) (simp_all add: fetchUsers_try_def truthy_def response_ok_def)

text \<open>
  C4, as the code has it. In question 1's \<^verbatim>\<open>fetchUsers\<close> (question and solution)
  and in question 16's \<^verbatim>\<open>useFetch\<close>, a failed request ends in the \<^verbatim>\<open>catch\<close>
  branch, which records the error's message in the error state and sets
  \<^verbatim>\<open>loading\<close> to false, with no retry and no rethrow: \<^verbatim>\<open>fetchUsers\<close> leaves
  \<^verbatim>\<open>users\<close> as it was, and \<^verbatim>\<open>useFetch\<close> sets \<^verbatim>\<open>data\<close> to
  \<^verbatim>\<open>null\<close>. For \<^verbatim>\<open>useFetch\<close> the request fails exactly when
  \<^verbatim>\<open>fetch\<close> rejects, the response is not ok, or \<^verbatim>\<open>json()\<close> rejects. This is
  not so in every data-fetching snippet: \<^verbatim>\<open>loadData\<close> of question 14 has no error
  state and an empty \<^verbatim>\<open>catch\<close>, and a failed request leaves its state unchanged.
\<close>

theorem failed_fetch_sets_error_state:
  "fetchUsers (Rejected m) st = st\<lparr>UserListState.error := Some m, UserListState.loading := False\<rparr>
   \<and> (fetchUsers_try users_of settled' = Inl m \<longrightarrow>
        fetchUsers_solution users_of settled' st
          = st\<lparr>UserListState.error := Some m, UserListState.loading := False\<rparr>)
   \<and> (fetchData_try settled = Inl m \<longrightarrow>
        useFetch settled fs
          = \<lparr>FetchState.data = None, FetchState.loading = False, FetchState.error = Some m\<rparr>)
   \<and> fetchData_try (Rejected m) = (Inl m :: string + 'a)
   \<and> (\<not> ok r \<longrightarrow> fetchData_try (Resolved r) = Inl ''Network response was not ok'')
   \<and> (ok r \<and> json r = Rejected m \<longrightarrow> fetchData_try (Resolved r) = Inl m)
   \<and> (ok r \<and> json r = Resolved d \<longrightarrow>
        fetchData_try (Resolved r) = Inr d
        \<and> useFetch (Resolved r) fs
          = \<lparr>FetchState.data = Some d, FetchState.loading = False, FetchState.error = None\<rparr>)
   \<and> loadData (Rejected m) ds = ds"
  by (simp add: fetchUsers_def fetchUsers_solution_def useFetch_def fetchData_try_cases
      loadData_def)

theorem failed_fetch_sets_error_state_witness:
  "fetchUsers_solution (\<lambda>d. d) (Resolved \<lparr>axios_response.data = [''ann''], status = 200\<rparr>)
     \<lparr>UserListState.users = [], UserListState.loading = True, UserListState.error = None\<rparr>
     = \<lparr>UserListState.users = [], UserListState.loading = False,
        UserListState.error = Some ''Fetching data about users failed''\<rparr>
   \<and> useFetch (Resolved \<lparr>ok = False, json = Resolved [''a'']\<rparr>)
       \<lparr>FetchState.data = Some [''old''], FetchState.loading = False, FetchState.error = None\<rparr>
     = \<lparr>FetchState.data = None, FetchState.loading = False,
        FetchState.error = Some ''Network response was not ok''\<rparr>
   \<and> fetchData_try (Resolved \<lparr>ok = True, json = (Rejected ''Unexpected token'' :: string list promise)\<rparr>)
     = Inl ''Unexpected token''
   \<and> useFetch (Resolved \<lparr>ok = True, json = Resolved [''a'']\<rparr>)
       \<lparr>FetchState.data = Some [''old''], FetchState.loading = False, FetchState.error = None\<rparr>
     = \<lparr>FetchState.data = Some [''a''], FetchState.loading = False, FetchState.error = None\<rparr>"
  using
    failed_fetch_sets_error_state
      [where m = "''Fetching data about users failed''" and users_of = "\<lambda>d. d"
         and settled' = "Resolved \<lparr>axios_response.data = [''ann''], status = 200\<rparr>"
         and st = "\<lparr>UserListState.users = [], UserListState.loading = True,
                    UserListState.error = None\<rparr>"
         and settled = "Resolved \<lparr>ok = False, json = Resolved [''a'']\<rparr>"
         and fs = "\<lparr>FetchState.data = Some [''old''], FetchState.loading = False,
                    FetchState.error = None\<rparr>"
         and r = "\<lparr>ok = True, json = Resolved [''a'']\<rparr>" and d = "[''a'']"
         and ds = "\<lparr>DataFetching.data = [], DataFetching.loading = True,
                    DataFetching.isMounted = True\<rparr>"]
    failed_fetch_sets_error_state
      [where m = "''Network response was not ok''" and users_of = "\<lambda>d. d"
         and settled' = "Resolved \<lparr>axios_response.data = [''ann''], status = 200\<rparr>"
         and st = "\<lparr>UserListState.users = [], UserListState.loading = True,
                    UserListState.error = None\<rparr>"
         and settled = "Resolved \<lparr>ok = False, json = Resolved [''a'']\<rparr>"
         and fs = "\<lparr>FetchState.data = Some [''old''], FetchState.loading = False,
                    FetchState.error = None\<rparr>"
         and r = "\<lparr>ok = False, json = Resolved [''a'']\<rparr>" and d = "[''a'']"
         and ds = "\<lparr>DataFetching.data = [], DataFetching.loading = True,
                    DataFetching.isMounted = True\<rparr>"]
    failed_fetch_sets_error_state
      [where m = "''Unexpected token''" and users_of = "\<lambda>d. d"
         and settled' = "Resolved \<lparr>axios_response.data = [''ann''], status = 200\<rparr>"
         and st = "\<lparr>UserListState.users = [], UserListState.loading = True,
                    UserListState.error = None\<rparr>"
         and settled = "Resolved \<lparr>ok = False, json = Resolved [''a'']\<rparr>"
         and fs = "\<lparr>FetchState.data = None, FetchState.loading = True, FetchState.error = None\<rparr>"
         and r = "\<lparr>ok = True, json = Rejected ''Unexpected token''\<rparr>" and d = "[''a'']"
         and ds = "\<lparr>DataFetching.data = [], DataFetching.loading = True,
                    DataFetching.isMounted = True\<rparr>"]
  by (simp add: fetchUsers_try_fails fetchData_try_cases)

theorem every_fetch_sets_error_state_counterexample:
  "loadData (Rejected ''Failed to fetch'')
     \<lparr>DataFetching.data = [], DataFetching.loading = True, DataFetching.isMounted = True\<rparr>
   = \<lparr>DataFetching.data = [], DataFetching.loading = True, DataFetching.isMounted = True\<rparr>
   \<and> DataFetching.loading
       (loadData (fetchData (Rejected ''Failed to fetch''))
          \<lparr>DataFetching.data = [], DataFetching.loading = True, DataFetching.isMounted = True\<rparr>)
     = True"
  by (simp add: loadData_def fetchData_def)

subsection \<open>The broken solutions\<close>

text \<open>
  C5. In \<^verbatim>\<open>question1/solution.tsx\<close> every execution of \<^verbatim>\<open>fetchUsers\<close> throws
  inside the \<^verbatim>\<open>try\<close> block and so reaches the \<^verbatim>\<open>catch\<close> branch, because
  \<^verbatim>\<open>response.ok\<close> is undefined on an Axios response: the users are never stored,
  an error is, and after a request that succeeded the component renders the error text in
  place of the fetched list. In \<^verbatim>\<open>question4/solution.tsx\<close>, \<^verbatim>\<open>handleAgeChange\<close>
  stores \<^verbatim>\<open>Number(value)\<close> for every input string, whatever it is; when that is NaN,
  NaN is stored.
\<close>

theorem solutions_are_broken:
  "(\<exists>m. fetchUsers_try users_of settled = Inl m)
   \<and> fetchUsers_try users_of (Resolved response) = Inl ''Fetching data about users failed''
   \<and> UserListState.users (fetchUsers_solution users_of settled st) = UserListState.users st
   \<and> UserListState.loading (fetchUsers_solution users_of settled st) = False
   \<and> UserListState.error (fetchUsers_solution users_of settled st) \<noteq> None
   \<and> UserListState.users (useEffect_solution users_of settled initialState) = []
   \<and> render (useEffect_solution users_of (Resolved response) initialState)
       = ErrorText ''Fetching data about users failed''
   \<and> handleAgeChange Number v user = user\<lparr>age := Number v\<rparr>
   \<and> User.name (handleAgeChange Number v user) = User.name user
   \<and> (Number v = NaN \<longrightarrow> age (handleAgeChange Number v user) = NaN)"
  by (simp add: fetchUsers_try_fails fetchUsers_solution_def useEffect_solution_def
      initialState_def render_def handleAgeChange_def)

theorem solutions_are_broken_witness:
  "render (useEffect_solution (\<lambda>d. d)
       (Resolved \<lparr>axios_response.data = [''ann'', ''bob''], status = 200\<rparr>) initialState)
     = ErrorText ''Fetching data about users failed''
   \<and> age (handleAgeChange (\<lambda>v. if v = ''abc'' then NaN else Num 0) ''abc''
        \<lparr>User.name = ''Ann'', age = Num 30\<rparr>)
     = NaN"
  using solutions_are_broken
    [where users_of = "\<lambda>d. d" and settled = "Rejected ''Network Error''"
       and response = "\<lparr>axios_response.data = [''ann'', ''bob''], status = 200\<rparr>"
       and st = "initialState :: string UserListState"
       and Number = "\<lambda>v. if v = ''abc'' then NaN else Num 0" and v = "''abc''"
       and user = "\<lparr>User.name = ''Ann'', age = Num 30\<rparr>"]
  by simp

end
